theory Spec2Isabelle
  imports Main
begin

section \<open>The posterior of a likelihood-based method (snle\_posterior.py)\<close>

text \<open>
  The theory embeds the two public methods of \<^verbatim>\<open>SnlePosterior\<close>, \<^verbatim>\<open>log_prob\<close> and
  \<^verbatim>\<open>sample\<close>. Exceptions are values of \<open>error + 'a\<close>; the effects of a call
  (warnings emitted, MCMC runs started, the random state consumed) are written into an
  explicit world that every method takes and returns.
\<close>

subsection \<open>Errors and tensors\<close>

datatype error =
    ConfigurationError
  | ValidationError
  | SamplingError
  | RuntimeError
  | TypeError

text \<open>
  A tensor is its shape and its elements in row-major order. The element type is left
  open: no claim looks inside an element.
\<close>

record 'a tensor =
  shape :: "nat list"
  elems :: "'a list"

text \<open>\<^verbatim>\<open>torch.Size(s).numel()\<close>: the product of the sizes, 1 for the empty shape.\<close>

definition numel :: "nat list \<Rightarrow> nat" where
  "numel s = prod_list s"

text \<open>
  \<^verbatim>\<open>Tensor.reshape(dims)\<close> of torch, where one entry of \<open>dims\<close> may be \<open>-1\<close> and is
  then inferred from the number of elements. torch raises \<^verbatim>\<open>RuntimeError\<close> when
  an entry is below \<open>-1\<close>, when more than one entry is \<open>-1\<close>, when the sizes do not
  multiply to the number of elements, and when the entry to infer is ambiguous or
  impossible because the other entries multiply to 0. The elements stay in their order.
\<close>

definition reshape :: "int list \<Rightarrow> 'a tensor \<Rightarrow> error + 'a tensor" where
  "reshape dims t =
     (let n = int (numel (shape t));
          known = prod_list (filter (\<lambda>d. d \<noteq> - 1) dims);
          inferred = length (filter (\<lambda>d. d = - 1) dims)
      in if list_ex (\<lambda>d. d < - 1) dims then Inl RuntimeError
         else if 1 < inferred then Inl RuntimeError
         else if inferred = 1 then
           (if known = 0 then Inl RuntimeError
            else if n mod known \<noteq> 0 then Inl RuntimeError
            else Inr (t\<lparr>shape := map (\<lambda>d. nat (if d = - 1 then n div known else d)) dims\<rparr>))
         else if known = n then Inr (t\<lparr>shape := map nat dims\<rparr>)
         else Inl RuntimeError)"

subsection \<open>The evaluator's state and the world around it\<close>

text \<open>
  The attributes of the instance that the two methods read: the default observation, the
  default MCMC method and the default MCMC parameters (a dictionary from option names to
  values, kept as an association list in insertion order).
\<close>

record ('a, 'v) SnlePosterior =
  default_x :: "'a tensor option"
  mcmc_method :: string
  mcmc_parameters :: "(string \<times> 'v) list"

text \<open>
  One invocation of \<^verbatim>\<open>_sample_posterior_mcmc\<close>: the four keyword arguments that
  \<^verbatim>\<open>sample\<close> names itself, and the dictionary it unpacks after them.
\<close>

record ('a, 'v) mcmc_call =
  call_x :: "'a tensor"
  call_num_samples :: nat
  call_show_progress_bars :: bool
  call_mcmc_method :: string
  call_kwargs :: "(string \<times> 'v) list"

record ('a, 'v, 'g) world =
  self :: "('a, 'v) SnlePosterior"
  warnings :: "string list"
  mcmc_calls :: "('a, 'v) mcmc_call list"
  rng :: 'g

subsection \<open>Helpers of the base class and of the utilities\<close>

text \<open>
  Modelled from the spec: \<^verbatim>\<open>atleast_2d_float32_tensor\<close> (sbi.utils.torchutils) is not
  among the sources. The spec says the resolved observation is coerced to a 2D float
  tensor: leading axes of size 1 are added until the tensor has two axes; a tensor with
  two or more axes is left as it is.
\<close>

definition atleast_2d_float32_tensor :: "'a tensor \<Rightarrow> 'a tensor" where
  "atleast_2d_float32_tensor t =
     (case shape t of
        [] \<Rightarrow> t\<lparr>shape := [1, 1]\<rparr>
      | [n] \<Rightarrow> t\<lparr>shape := [1, n]\<rparr>
      | _ \<Rightarrow> t)"

text \<open>
  Modelled from the spec: \<^verbatim>\<open>ensure_theta_batched\<close> (sbi.utils.torchutils) is not among
  the sources. The spec says the parameters are coerced to at-least-2D batch form before
  evaluation.
\<close>

definition ensure_theta_batched :: "'a tensor \<Rightarrow> 'a tensor" where
  "ensure_theta_batched theta =
     (case shape theta of
        [] \<Rightarrow> theta\<lparr>shape := [1, 1]\<rparr>
      | [n] \<Rightarrow> theta\<lparr>shape := [1, n]\<rparr>
      | _ \<Rightarrow> theta)"

text \<open>
  Modelled from the spec: \<^verbatim>\<open>NeuralPosterior._x_else_default_x\<close> is not among the
  sources. The spec says the observation resolves to the supplied value or else the
  stored default, and fails with \<^verbatim>\<open>ConfigurationError\<close> if neither is available.
\<close>

definition x_else_default_x ::
  "('a, 'v) SnlePosterior \<Rightarrow> 'a tensor option \<Rightarrow> error + 'a tensor" where
  "x_else_default_x slf x =
     (case x of
        Some x' \<Rightarrow> Inr x'
      | None \<Rightarrow>
          (case default_x slf of
             Some d \<Rightarrow> Inr d
           | None \<Rightarrow> Inl ConfigurationError))"

text \<open>
  Modelled from the spec: \<^verbatim>\<open>NeuralPosterior._ensure_single_x\<close> is not among the
  sources. The spec says it fails with \<^verbatim>\<open>ValidationError\<close> if the batch dimension of
  the observation, its leading size, is not 1.
\<close>

definition ensure_single_x :: "'a tensor \<Rightarrow> error + unit" where
  "ensure_single_x x =
     (case shape x of
        [] \<Rightarrow> Inl ValidationError
      | b # _ \<Rightarrow> if b = 1 then Inr () else Inl ValidationError)"

text \<open>
  Modelled from the spec: \<^verbatim>\<open>NeuralPosterior._ensure_x_consistent_with_default_x\<close> is
  not among the sources. The spec says it fails, with \<^verbatim>\<open>ValidationError\<close>, if the
  shape of the observation mismatches the shape of a previously fixed default; without a
  default there is nothing to compare with.
\<close>

definition ensure_x_consistent_with_default_x ::
  "('a, 'v) SnlePosterior \<Rightarrow> 'a tensor \<Rightarrow> error + unit" where
  "ensure_x_consistent_with_default_x slf x =
     (case default_x slf of
        None \<Rightarrow> Inr ()
      | Some d \<Rightarrow> if shape x = shape d then Inr () else Inl ValidationError)"

text \<open>
  Modelled from the spec: \<^verbatim>\<open>NeuralPosterior._build_theta_x_for_log_prob_\<close> is not
  among the sources. The spec says \<^verbatim>\<open>log_prob\<close> resolves the observation as above and
  coerces the parameters to batch form.
\<close>

definition build_theta_x_for_log_prob ::
  "('a, 'v) SnlePosterior \<Rightarrow> 'a tensor \<Rightarrow> 'a tensor option \<Rightarrow> error + ('a tensor \<times> 'a tensor)" where
  "build_theta_x_for_log_prob slf theta x =
     (case x_else_default_x slf x of
        Inl e \<Rightarrow> Inl e
      | Inr x' \<Rightarrow> Inr (ensure_theta_batched theta, x'))"

subsection \<open>log\_prob\<close>

definition unnormalized_warning :: string where
  "unnormalized_warning =
     ''The log probability from SNL is only correct up to a normalizing constant.''"

text \<open>
  \<^verbatim>\<open>SnlePosterior.log_prob\<close>. The network and the prior are external: their
  \<^verbatim>\<open>log_prob\<close> methods are parameters, and each receives the gradient mode that
  \<^verbatim>\<open>torch.set_grad_enabled(track_gradients)\<close> sets around the two calls. The sum is the
  addition of the result type. The warning goes to the world's list of warnings, after
  the observation has been resolved and before the sum is formed.
\<close>

definition log_prob ::
  "(bool \<Rightarrow> 'a tensor \<Rightarrow> 'a tensor \<Rightarrow> 'r::plus) \<Rightarrow> (bool \<Rightarrow> 'a tensor \<Rightarrow> 'r) \<Rightarrow>
   'a tensor \<Rightarrow> 'a tensor option \<Rightarrow> bool \<Rightarrow>
   ('a, 'v, 'g) world \<Rightarrow> (error + 'r) \<times> ('a, 'v, 'g) world" where
  "log_prob net_log_prob prior_log_prob theta x track_gradients w =
     (case build_theta_x_for_log_prob (self w) theta x of
        Inl e \<Rightarrow> (Inl e, w)
      | Inr (theta', x') \<Rightarrow>
          (let w' = w\<lparr>warnings := warnings w @ [unnormalized_warning]\<rparr>
           in (Inr (net_log_prob track_gradients x' theta' + prior_log_prob track_gradients theta'),
               w')))"

subsection \<open>sample\<close>

text \<open>
  The keyword arguments that \<^verbatim>\<open>sample\<close> passes by name. Python raises \<^verbatim>\<open>TypeError\<close>
  at the call when the unpacked dictionary repeats one of them.
\<close>

definition named_keywords :: "string list" where
  "named_keywords = [''x'', ''num_samples'', ''show_progress_bars'', ''mcmc_method'']"

text \<open>
  \<^verbatim>\<open>SnlePosterior.sample\<close>. The method \<^verbatim>\<open>_sample_posterior_mcmc\<close> of the base class is
  not among the sources and is random: it is the parameter \<open>sampler\<close>, which receives
  the call and the random state and returns the flat batch of draws, or an error, and
  the new random state. Each invocation is appended to \<open>mcmc_calls\<close>.
\<close>

definition sample ::
  "(('a, 'v) mcmc_call \<Rightarrow> 'g \<Rightarrow> (error + 'a tensor) \<times> 'g) \<Rightarrow>
   nat list \<Rightarrow> 'a tensor option \<Rightarrow> bool \<Rightarrow> bool option \<Rightarrow> string option \<Rightarrow>
   (string \<times> 'v) list option \<Rightarrow>
   ('a, 'v, 'g) world \<Rightarrow> (error + 'a tensor) \<times> ('a, 'v, 'g) world" where
  "sample sampler sample_shape x show_progress_bars sample_with_mcmc method_arg parameters_arg w =
     (case x_else_default_x (self w) x of
        Inl e \<Rightarrow> (Inl e, w)
      | Inr x0 \<Rightarrow>
          (let x1 = atleast_2d_float32_tensor x0 in
           case ensure_single_x x1 of
             Inl e \<Rightarrow> (Inl e, w)
           | Inr _ \<Rightarrow>
               (case ensure_x_consistent_with_default_x (self w) x1 of
                  Inl e \<Rightarrow> (Inl e, w)
                | Inr _ \<Rightarrow>
                    (let num_samples = numel sample_shape;
                         method = (case method_arg of Some m \<Rightarrow> m | None \<Rightarrow> mcmc_method (self w));
                         parameters =
                           (case parameters_arg of Some p \<Rightarrow> p | None \<Rightarrow> mcmc_parameters (self w))
                     in if list_ex (\<lambda>k. k \<in> set named_keywords) (map fst parameters)
                        then (Inl TypeError, w)
                        else
                          (let call = \<lparr>call_x = x1, call_num_samples = num_samples,
                                       call_show_progress_bars = show_progress_bars,
                                       call_mcmc_method = method, call_kwargs = parameters\<rparr>;
                               (r, g') = sampler call (rng w);
                               w' = w\<lparr>mcmc_calls := mcmc_calls w @ [call], rng := g'\<rparr>
                           in case r of
                                Inl e \<Rightarrow> (Inl e, w')
                              | Inr samples \<Rightarrow>
                                  (reshape (map int sample_shape @ [- 1]) samples, w'))))))"

subsection \<open>Stand-ins for the external collaborators\<close>

text \<open>
  Concrete inputs on which the methods are run below. The sampler stand-in meets the
  contract of the MCMC step, a flat batch of \<open>num_samples\<close> draws of dimension \<open>d\<close>,
  and advances the random state by one; the network and prior stand-ins are arbitrary
  total functions.
\<close>

definition flat_batch_sampler ::
  "nat \<Rightarrow> 'a \<Rightarrow> ('a, 'v) mcmc_call \<Rightarrow> nat \<Rightarrow> (error + 'a tensor) \<times> nat" where
  "flat_batch_sampler d v call g =
     (Inr \<lparr>shape = [call_num_samples call, d],
           elems = replicate (call_num_samples call * d) v\<rparr>, Suc g)"

definition example_net_log_prob :: "bool \<Rightarrow> int tensor \<Rightarrow> int tensor \<Rightarrow> int" where
  "example_net_log_prob grad x theta = sum_list (elems x) - sum_list (elems theta)"

definition example_prior_log_prob :: "bool \<Rightarrow> int tensor \<Rightarrow> int" where
  "example_prior_log_prob grad theta = - sum_list (elems theta)"

definition example_x :: "int tensor" where
  "example_x = \<lparr>shape = [2], elems = [0, 0]\<rparr>"

definition example_theta :: "int tensor" where
  "example_theta = \<lparr>shape = [2, 1], elems = [3, 4]\<rparr>"

definition example_posterior :: "(int, int) SnlePosterior" where
  "example_posterior =
     \<lparr>default_x = None, mcmc_method = ''slice_np'',
      mcmc_parameters = [(''warmup_steps'', 100), (''thin'', 10)]\<rparr>"

definition example_world :: "(int, int, nat) world" where
  "example_world = \<lparr>self = example_posterior, warnings = [], mcmc_calls = [], rng = 0\<rparr>"

section \<open>Properties\<close>

subsection \<open>Auxiliary facts\<close>

lemmas example_defs =
  example_net_log_prob_def example_prior_log_prob_def example_x_def example_theta_def
  example_posterior_def example_world_def

lemma int_prod_list: "prod_list (map int s) = int (prod_list s)"
  by (induction s) simp_all

lemma filter_known_dims: "filter (\<lambda>d. d \<noteq> - 1) (map int s @ [- 1]) = map int s"
  by (induction s) simp_all

lemma filter_inferred_dims: "filter (\<lambda>d. d = - 1) (map int s @ [- 1]) = [- 1]"
  by (induction s) simp_all

lemma no_invalid_dims: "list_ex (\<lambda>d. d < - 1) (map int s @ [- 1]) = False"
  by (induction s) simp_all

lemma infer_last_dim:
  "map (\<lambda>d. nat (if d = - 1 then k else d)) (map int s @ [- 1]) = s @ [nat k]"
  by (induction s) simp_all

lemma reshape_infer_last:
  assumes "0 \<notin> set s" and "numel (shape t) = numel s * d"
  shows "reshape (map int s @ [- 1]) t = Inr (t\<lparr>shape := s @ [d]\<rparr>)"
proof -
  have pos: "prod_list s \<noteq> 0"
    using assms(1) by (simp add: prod_list_zero_iff)
  have d: "int (prod_list s * d) div int (prod_list s) = int d"
    using pos by (metis nonzero_mult_div_cancel_left of_nat_eq_0_iff of_nat_mult)
  have "reshape (map int s @ [- 1]) t =
      (if int (prod_list s) = 0 then Inl RuntimeError
       else if int (prod_list (shape t)) mod int (prod_list s) \<noteq> 0 then Inl RuntimeError
       else Inr (t\<lparr>shape := s @ [nat (int (prod_list (shape t)) div int (prod_list s))]\<rparr>))"
    by (simp only: reshape_def Let_def filter_known_dims filter_inferred_dims
        no_invalid_dims infer_last_dim int_prod_list numel_def if_False list.size
        One_nat_def add_0 less_irrefl refl if_True)
  then show ?thesis
    using pos assms(2) d by (simp add: numel_def)
qed

lemma reshape_zero_dim:
  assumes "0 \<in> set s"
  shows "reshape (map int s @ [- 1]) t = Inl RuntimeError"
proof -
  have "prod_list s = 0"
    using assms by (simp add: prod_list_zero_iff)
  then have "int (prod_list s) = 0"
    by simp
  then show ?thesis
    by (simp only: reshape_def Let_def filter_known_dims filter_inferred_dims
        no_invalid_dims int_prod_list if_False list.size
        One_nat_def add_0 less_irrefl refl if_True)
qed

lemma sample_reaches_sampler:
  assumes "x_else_default_x (self w) x = Inr x0"
    and "ensure_single_x (atleast_2d_float32_tensor x0) = Inr ()"
    and "ensure_x_consistent_with_default_x (self w) (atleast_2d_float32_tensor x0) = Inr ()"
    and "\<not> list_ex (\<lambda>k. k \<in> set named_keywords) (map fst
           (case parameters_arg of Some p \<Rightarrow> p | None \<Rightarrow> mcmc_parameters (self w)))"
    and "call = \<lparr>call_x = atleast_2d_float32_tensor x0, call_num_samples = numel sample_shape,
            call_show_progress_bars = show_progress_bars,
            call_mcmc_method = (case method_arg of Some m \<Rightarrow> m | None \<Rightarrow> mcmc_method (self w)),
            call_kwargs = (case parameters_arg of Some p \<Rightarrow> p | None \<Rightarrow> mcmc_parameters (self w))\<rparr>"
  shows "sample sampler sample_shape x show_progress_bars sample_with_mcmc method_arg parameters_arg w =
     (case fst (sampler call (rng w)) of
        Inl e \<Rightarrow> Inl e
      | Inr samples \<Rightarrow> reshape (map int sample_shape @ [- 1]) samples,
      w\<lparr>mcmc_calls := mcmc_calls w @ [call], rng := snd (sampler call (rng w))\<rparr>)"
  using assms
  by (simp add: sample_def Let_def split: prod.splits sum.splits)

subsection \<open>The value of log\_prob\<close>

lemma ensure_theta_batched_batch:
  "2 \<le> length (shape theta) \<Longrightarrow> ensure_theta_batched theta = theta"
  by (cases "shape theta" rule: list.exhaust[case_names Nil Cons])
     (auto simp: ensure_theta_batched_def split: list.splits)

lemma x_else_default_x_resolved:
  "x = Some x' \<or> x = None \<and> default_x slf = Some x' \<Longrightarrow> x_else_default_x slf x = Inr x'"
  by (auto simp: x_else_default_x_def)

text \<open>
  C1: for every batch of parameters \<open>theta\<close> (a tensor with at least two axes) and
  every conditioning observation \<open>x'\<close> that the call resolves to, supplied by the caller
  or taken from the stored default, \<^verbatim>\<open>log_prob\<close> returns the network's log-probability
  of \<open>x'\<close> given \<open>theta\<close> plus the prior's log-probability of \<open>theta\<close>: the
  unnormalized posterior log-density.
\<close>

theorem log_prob_is_unnormalized_posterior:
  assumes "2 \<le> length (shape theta)"
    and "x = Some x' \<or> x = None \<and> default_x (self w) = Some x'"
  shows "fst (log_prob net_log_prob prior_log_prob theta x track_gradients w) =
         Inr (net_log_prob track_gradients x' theta + prior_log_prob track_gradients theta)"
  using assms
  by (simp add: log_prob_def build_theta_x_for_log_prob_def x_else_default_x_resolved
      ensure_theta_batched_batch)

theorem log_prob_is_unnormalized_posterior_witness:
  "fst (log_prob example_net_log_prob example_prior_log_prob example_theta None False
         (example_world\<lparr>self := example_posterior\<lparr>default_x := Some example_x\<rparr>\<rparr>)) =
   Inr (- 14)"
proof -
  have batch: "2 \<le> length (shape example_theta)"
    by (simp add: example_theta_def)
  have resolved: "(None :: int tensor option) = Some example_x \<or>
      (None :: int tensor option) = None \<and>
      default_x (self (example_world\<lparr>self := example_posterior\<lparr>default_x := Some example_x\<rparr>\<rparr>)) =
        Some example_x"
    by simp
  show ?thesis
    using log_prob_is_unnormalized_posterior [OF batch resolved,
        of example_net_log_prob example_prior_log_prob False]
    by (simp add: example_defs)
qed

subsection \<open>Validation of the observation in sample\<close>

lemma ensure_single_x_batch:
  "shape x = b # rest \<Longrightarrow> 1 < b \<Longrightarrow> ensure_single_x x = Inl ValidationError"
  by (simp add: ensure_single_x_def)

text \<open>
  C3: when the observation the call resolves to has, once coerced to two axes, a batch
  dimension \<open>b\<close> greater than 1, \<^verbatim>\<open>sample\<close> raises \<^verbatim>\<open>ValidationError\<close>. The
  world comes back as it was: no MCMC call has been recorded and the random state is
  untouched, whatever the sampler is, so the error precedes any MCMC computation.
\<close>

theorem sample_rejects_batch_of_observations:
  assumes "x = Some x' \<or> x = None \<and> default_x (self w) = Some x'"
    and "shape (atleast_2d_float32_tensor x') = b # rest"
    and "1 < b"
  shows "sample sampler sample_shape x show_progress_bars sample_with_mcmc method_arg
           parameters_arg w = (Inl ValidationError, w)"
  using assms
  by (simp add: sample_def x_else_default_x_resolved ensure_single_x_batch)

theorem sample_rejects_batch_of_observations_witness:
  "sample (flat_batch_sampler 2 0) [3] (Some \<lparr>shape = [2, 2], elems = [0, 0, 0, 0]\<rparr>)
     True None None None example_world = (Inl ValidationError, example_world)"
proof -
  let ?x = "\<lparr>shape = [2, 2], elems = [0, 0, 0, 0 :: int]\<rparr>"
  have resolved: "Some ?x = Some ?x \<or> Some ?x = None \<and> default_x (self example_world) = Some ?x"
    by simp
  have batch: "shape (atleast_2d_float32_tensor ?x) = 2 # [2]"
    by (simp add: atleast_2d_float32_tensor_def)
  have more: "(1::nat) < 2"
    by simp
  show ?thesis
    using sample_rejects_batch_of_observations [OF resolved batch more] .
qed

text \<open>
  C4: when no default observation is stored, a call of \<^verbatim>\<open>log_prob\<close> and a call of
  \<^verbatim>\<open>sample\<close> that omit \<open>x\<close> both raise \<^verbatim>\<open>ConfigurationError\<close>.
\<close>

theorem omitted_x_without_default_raises:
  assumes "default_x (self w) = None"
  shows "fst (log_prob net_log_prob prior_log_prob theta None track_gradients w) =
           Inl ConfigurationError \<and>
         fst (sample sampler sample_shape None show_progress_bars sample_with_mcmc method_arg
           parameters_arg w) = Inl ConfigurationError"
  using assms
  by (simp add: log_prob_def build_theta_x_for_log_prob_def sample_def x_else_default_x_def)

theorem omitted_x_without_default_raises_witness:
  "fst (log_prob example_net_log_prob example_prior_log_prob example_theta None False
          example_world) = Inl ConfigurationError \<and>
   fst (sample (flat_batch_sampler 2 0) [3] None True None None None example_world) =
     Inl ConfigurationError"
proof -
  have no_default: "default_x (self example_world) = None"
    by (simp add: example_defs)
  show ?thesis
    using omitted_x_without_default_raises [OF no_default] .
qed

text \<open>
  C5: once a default observation \<open>d\<close> is fixed, a call of \<^verbatim>\<open>sample\<close> with an
  observation whose shape (after the coercion to two axes) differs from the shape of
  \<open>d\<close> raises \<^verbatim>\<open>ValidationError\<close>, and leaves the world as it was.
\<close>

theorem sample_rejects_x_inconsistent_with_default:
  assumes "default_x (self w) = Some d"
    and "shape (atleast_2d_float32_tensor x) \<noteq> shape d"
  shows "sample sampler sample_shape (Some x) show_progress_bars sample_with_mcmc method_arg
           parameters_arg w = (Inl ValidationError, w)"
proof (cases "ensure_single_x (atleast_2d_float32_tensor x)")
  case (Inl e)
  then have "e = ValidationError"
    by (auto simp: ensure_single_x_def split: list.splits if_splits)
  with Inl show ?thesis
    by (simp add: sample_def x_else_default_x_def)
next
  case (Inr u)
  have "ensure_x_consistent_with_default_x (self w) (atleast_2d_float32_tensor x) =
      Inl ValidationError"
    using assms by (simp add: ensure_x_consistent_with_default_x_def)
  with Inr show ?thesis
    by (simp add: sample_def x_else_default_x_def)
qed

theorem sample_rejects_x_inconsistent_with_default_witness:
  "sample (flat_batch_sampler 2 0) [3] (Some \<lparr>shape = [1, 3], elems = [0, 0, 0]\<rparr>)
     True None None None
     (example_world\<lparr>self := example_posterior\<lparr>default_x := Some \<lparr>shape = [1, 2], elems = [0, 0]\<rparr>\<rparr>\<rparr>) =
   (Inl ValidationError,
    example_world\<lparr>self := example_posterior\<lparr>default_x := Some \<lparr>shape = [1, 2], elems = [0, 0]\<rparr>\<rparr>\<rparr>)"
proof -
  let ?d = "\<lparr>shape = [1, 2], elems = [0, 0 :: int]\<rparr>"
  let ?x = "\<lparr>shape = [1, 3], elems = [0, 0, 0 :: int]\<rparr>"
  let ?w = "example_world\<lparr>self := example_posterior\<lparr>default_x := Some ?d\<rparr>\<rparr>"
  have fixed: "default_x (self ?w) = Some ?d"
    by simp
  have differs: "shape (atleast_2d_float32_tensor ?x) \<noteq> shape ?d"
    by (simp add: atleast_2d_float32_tensor_def)
  show ?thesis
    using sample_rejects_x_inconsistent_with_default [OF fixed differs] .
qed

subsection \<open>The shape of the samples\<close>

text \<open>
  A size 0 anywhere in \<open>sample_shape\<close> makes the final \<^verbatim>\<open>reshape\<close> fail, whatever
  the sampler returned: the sizes that are given multiply to 0, so the last one cannot be
  inferred.
\<close>

lemma sample_zero_dim_never_returns:
  assumes "0 \<in> set sample_shape"
  shows "fst (sample sampler sample_shape x show_progress_bars sample_with_mcmc method_arg
           parameters_arg w) \<noteq> Inr t"
  using assms
  by (simp add: sample_def Let_def reshape_zero_dim split: sum.splits prod.splits)

text \<open>
  When every size of \<open>sample_shape\<close> is positive, the call gets past its checks, and the
  sampler returns the flat batch it is asked for, the result has the shape
  \<open>sample_shape\<close> followed by the dimension of the parameters.
\<close>

lemma sample_returns_requested_shape:
  assumes resolved: "x = Some x' \<or> x = None \<and> default_x (self w) = Some x'"
    and single: "ensure_single_x (atleast_2d_float32_tensor x') = Inr ()"
    and consistent:
      "ensure_x_consistent_with_default_x (self w) (atleast_2d_float32_tensor x') = Inr ()"
    and no_clash: "\<not> list_ex (\<lambda>k. k \<in> set named_keywords) (map fst
           (case parameters_arg of Some p \<Rightarrow> p | None \<Rightarrow> mcmc_parameters (self w)))"
    and contract: "\<forall>c g. \<exists>t g'. sampler c g = (Inr t, g') \<and> shape t = [call_num_samples c, d]"
    and positive: "0 \<notin> set sample_shape"
  shows "\<exists>t. fst (sample sampler sample_shape x show_progress_bars sample_with_mcmc method_arg
           parameters_arg w) = Inr t \<and> shape t = sample_shape @ [d]"
proof -
  define call where "call = \<lparr>call_x = atleast_2d_float32_tensor x',
      call_num_samples = numel sample_shape, call_show_progress_bars = show_progress_bars,
      call_mcmc_method = (case method_arg of Some m \<Rightarrow> m | None \<Rightarrow> mcmc_method (self w)),
      call_kwargs = (case parameters_arg of Some p \<Rightarrow> p | None \<Rightarrow> mcmc_parameters (self w))\<rparr>"
  obtain t g' where run: "sampler call (rng w) = (Inr t, g')"
    and flat: "shape t = [call_num_samples call, d]"
    using contract by blast
  have "numel (shape t) = numel sample_shape * d"
    using flat by (simp add: call_def numel_def)
  then have "reshape (map int sample_shape @ [- 1]) t = Inr (t\<lparr>shape := sample_shape @ [d]\<rparr>)"
    using positive by (rule reshape_infer_last [rotated])
  then have "fst (sample sampler sample_shape x show_progress_bars sample_with_mcmc method_arg
      parameters_arg w) = Inr (t\<lparr>shape := sample_shape @ [d]\<rparr>)"
    using sample_reaches_sampler [OF x_else_default_x_resolved [OF resolved] single consistent
        no_clash call_def, of sampler sample_with_mcmc] run
    by simp
  then show ?thesis
    by simp
qed

text \<open>
  C2: the claim is that for every \<open>sample_shape\<close> the call draws
  \<open>product(sample_shape)\<close> samples and returns a tensor whose leading dimensions are
  \<open>sample_shape\<close>. At \<open>sample_shape = (0,)\<close>, with a single observation and a sampler
  that returns the flat batch of 0 draws of dimension 2, the call does request 0 draws,
  and then raises \<^verbatim>\<open>RuntimeError\<close> in \<^verbatim>\<open>reshape((0, -1))\<close> instead of returning the
  empty tensor of shape \<open>(0, 2)\<close>.
\<close>
theorem sample_zero_size_shape_raises:
  "fst (sample (flat_batch_sampler 2 0) [0] (Some example_x) True None None None
         example_world) = Inl RuntimeError \<and>
   map call_num_samples (mcmc_calls (snd (sample (flat_batch_sampler 2 0) [0] (Some example_x)
         True None None None example_world))) = [0]"
  by (simp add: sample_def x_else_default_x_def atleast_2d_float32_tensor_def
      ensure_single_x_def ensure_x_consistent_with_default_x_def named_keywords_def
      flat_batch_sampler_def reshape_def numel_def Let_def example_defs)

subsection \<open>The MCMC configuration of a call\<close>

text \<open>
  C6, as amended: in every call of \<^verbatim>\<open>sample\<close> that gets past its checks, the sampler
  is invoked once, with the caller's \<^verbatim>\<open>mcmc_method\<close> when one is supplied and the stored
  default otherwise, and with the caller's \<^verbatim>\<open>mcmc_parameters\<close> dictionary as a whole
  when one is supplied and the stored dictionary otherwise. The two dictionaries are
  never combined entry by entry.
\<close>
theorem sample_mcmc_configuration:
  assumes resolved: "x = Some x' \<or> x = None \<and> default_x (self w) = Some x'"
    and single: "ensure_single_x (atleast_2d_float32_tensor x') = Inr ()"
    and consistent:
      "ensure_x_consistent_with_default_x (self w) (atleast_2d_float32_tensor x') = Inr ()"
    and no_clash: "\<not> list_ex (\<lambda>k. k \<in> set named_keywords) (map fst
           (case parameters_arg of Some p \<Rightarrow> p | None \<Rightarrow> mcmc_parameters (self w)))"
  shows "mcmc_calls (snd (sample sampler sample_shape x show_progress_bars sample_with_mcmc
           method_arg parameters_arg w)) =
         mcmc_calls w @
         [\<lparr>call_x = atleast_2d_float32_tensor x',
           call_num_samples = numel sample_shape,
           call_show_progress_bars = show_progress_bars,
           call_mcmc_method = (case method_arg of Some m \<Rightarrow> m | None \<Rightarrow> mcmc_method (self w)),
           call_kwargs =
             (case parameters_arg of Some p \<Rightarrow> p | None \<Rightarrow> mcmc_parameters (self w))\<rparr>]"
  using sample_reaches_sampler [OF x_else_default_x_resolved [OF resolved] single consistent
      no_clash refl, of sampler sample_shape show_progress_bars sample_with_mcmc method_arg]
  by simp

theorem sample_mcmc_configuration_witness:
  "mcmc_calls (snd (sample (flat_batch_sampler 2 0) [3] (Some example_x) True None
       (Some ''hmc'') None example_world)) =
   [\<lparr>call_x = \<lparr>shape = [1, 2], elems = [0, 0]\<rparr>, call_num_samples = 3,
     call_show_progress_bars = True, call_mcmc_method = ''hmc'',
     call_kwargs = [(''warmup_steps'', 100), (''thin'', 10)]\<rparr>]"
proof -
  have resolved: "Some example_x = Some example_x \<or>
      Some example_x = None \<and> default_x (self example_world) = Some example_x"
    by simp
  have single: "ensure_single_x (atleast_2d_float32_tensor example_x) = Inr ()"
    by (simp add: ensure_single_x_def atleast_2d_float32_tensor_def example_x_def)
  have consistent: "ensure_x_consistent_with_default_x (self example_world)
      (atleast_2d_float32_tensor example_x) = Inr ()"
    by (simp add: ensure_x_consistent_with_default_x_def example_world_def example_posterior_def)
  have no_clash: "\<not> list_ex (\<lambda>k. k \<in> set named_keywords) (map fst
      (case None of Some p \<Rightarrow> p | None \<Rightarrow> mcmc_parameters (self example_world)))"
    by (simp add: named_keywords_def example_world_def example_posterior_def)
  show ?thesis
    using sample_mcmc_configuration [OF resolved single consistent no_clash,
        of "flat_batch_sampler 2 0" "[3]" True None "Some ''hmc''"]
    by (simp add: numel_def atleast_2d_float32_tensor_def example_defs)
qed

text \<open>
  C6 as stated fails: the stored dictionary holds \<^verbatim>\<open>warmup_steps = 100\<close>, the caller
  supplies \<^verbatim>\<open>{thin: 5}\<close> only, and the sampler receives \<^verbatim>\<open>{thin: 5}\<close>: the stored
  entry for \<^verbatim>\<open>warmup_steps\<close>, which the caller did not override, is not applied.
\<close>

theorem sample_parameters_not_merged:
  "map_of (mcmc_parameters (self example_world)) ''warmup_steps'' = Some 100 \<and>
   map_of [(''thin'', 5 :: int)] ''warmup_steps'' = None \<and>
   map call_kwargs (mcmc_calls (snd (sample (flat_batch_sampler 2 0) [3] (Some example_x) True
       None None (Some [(''thin'', 5)]) example_world))) = [[(''thin'', 5)]]"
  by (simp add: sample_def x_else_default_x_def atleast_2d_float32_tensor_def
      ensure_single_x_def ensure_x_consistent_with_default_x_def named_keywords_def
      flat_batch_sampler_def Let_def example_defs)

subsection \<open>The warning of log\_prob\<close>

text \<open>
  C7, as amended: every call of \<^verbatim>\<open>log_prob\<close> whose observation resolves, supplied by
  the caller or taken from the stored default, appends the warning about the missing
  normalizing constant to the warnings, changes nothing else, and returns the computed
  sum: the concern is not raised as an exception.
\<close>
theorem log_prob_warns_and_returns:
  assumes "x = Some x' \<or> x = None \<and> default_x (self w) = Some x'"
  shows "log_prob net_log_prob prior_log_prob theta x track_gradients w =
         (Inr (net_log_prob track_gradients x' (ensure_theta_batched theta) +
               prior_log_prob track_gradients (ensure_theta_batched theta)),
          w\<lparr>warnings := warnings w @ [unnormalized_warning]\<rparr>)"
  using assms
  by (simp add: log_prob_def build_theta_x_for_log_prob_def x_else_default_x_resolved)

theorem log_prob_warns_and_returns_witness:
  "log_prob example_net_log_prob example_prior_log_prob example_theta (Some example_x) False
     example_world =
   (Inr (- 14), example_world\<lparr>warnings := [unnormalized_warning]\<rparr>)"
proof -
  have resolved: "Some example_x = Some example_x \<or>
      Some example_x = None \<and> default_x (self example_world) = Some example_x"
    by simp
  show ?thesis
    using log_prob_warns_and_returns [OF resolved,
        of example_net_log_prob example_prior_log_prob example_theta False]
    by (simp add: ensure_theta_batched_def example_defs)
qed

text \<open>
  C7 as stated fails: a call that omits \<open>x\<close> while no default is stored raises
  \<^verbatim>\<open>ConfigurationError\<close> at the resolution of \<open>x\<close>, which precedes the warning; it
  emits no warning and returns no value.
\<close>

theorem log_prob_without_x_emits_no_warning:
  "fst (log_prob example_net_log_prob example_prior_log_prob example_theta None False
          example_world) = Inl ConfigurationError \<and>
   warnings (snd (log_prob example_net_log_prob example_prior_log_prob example_theta None False
          example_world)) = []"
  by (simp add: log_prob_def build_theta_x_for_log_prob_def x_else_default_x_def example_defs)

subsection \<open>What sample leaves alone\<close>

text \<open>
  C8: after any call of \<^verbatim>\<open>sample\<close>, failed or not, the stored default observation,
  the stored default MCMC method and the stored default MCMC parameters are what they
  were before the call.
\<close>
theorem sample_keeps_stored_defaults:
  "default_x (self (snd (sample sampler sample_shape x show_progress_bars sample_with_mcmc
       method_arg parameters_arg w))) = default_x (self w) \<and>
   mcmc_method (self (snd (sample sampler sample_shape x show_progress_bars sample_with_mcmc
       method_arg parameters_arg w))) = mcmc_method (self w) \<and>
   mcmc_parameters (self (snd (sample sampler sample_shape x show_progress_bars sample_with_mcmc
       method_arg parameters_arg w))) = mcmc_parameters (self w)"
proof -
  have "self (snd (sample sampler sample_shape x show_progress_bars sample_with_mcmc
       method_arg parameters_arg w)) = self w"
    by (simp add: sample_def Let_def split: sum.splits prod.splits)
  then show ?thesis
    by simp
qed

theorem sample_keeps_stored_defaults_witness:
  "snd (sample (flat_batch_sampler 2 0) [3] (Some example_x) True None (Some ''hmc'')
       (Some [(''thin'', 5)]) example_world) =
   example_world\<lparr>mcmc_calls :=
       [\<lparr>call_x = \<lparr>shape = [1, 2], elems = [0, 0]\<rparr>, call_num_samples = 3,
         call_show_progress_bars = True, call_mcmc_method = ''hmc'',
         call_kwargs = [(''thin'', 5)]\<rparr>], rng := 1\<rparr> \<and>
   default_x (self (snd (sample (flat_batch_sampler 2 0) [3] (Some example_x) True None
       (Some ''hmc'') (Some [(''thin'', 5)]) example_world))) = None \<and>
   mcmc_method (self (snd (sample (flat_batch_sampler 2 0) [3] (Some example_x) True None
       (Some ''hmc'') (Some [(''thin'', 5)]) example_world))) = ''slice_np'' \<and>
   mcmc_parameters (self (snd (sample (flat_batch_sampler 2 0) [3] (Some example_x) True None
       (Some ''hmc'') (Some [(''thin'', 5)]) example_world))) =
     [(''warmup_steps'', 100), (''thin'', 10)]"
proof -
  have run: "snd (sample (flat_batch_sampler 2 0) [3] (Some example_x) True None (Some ''hmc'')
       (Some [(''thin'', 5)]) example_world) =
   example_world\<lparr>mcmc_calls :=
       [\<lparr>call_x = \<lparr>shape = [1, 2], elems = [0, 0]\<rparr>, call_num_samples = 3,
         call_show_progress_bars = True, call_mcmc_method = ''hmc'',
         call_kwargs = [(''thin'', 5)]\<rparr>], rng := 1\<rparr>"
    by (simp add: sample_def x_else_default_x_def atleast_2d_float32_tensor_def
      ensure_single_x_def ensure_x_consistent_with_default_x_def named_keywords_def
      flat_batch_sampler_def numel_def Let_def example_defs)
  show ?thesis
    using sample_keeps_stored_defaults [of "flat_batch_sampler 2 0" "[3]" "Some example_x" True
        None "Some ''hmc''" "Some [(''thin'', 5)]" example_world] run
    by (simp add: example_defs)
qed

text \<open>
  C9: the argument \<^verbatim>\<open>sample_with_mcmc\<close> is never read. With all other arguments, the
  sampler and the world (the random state included) fixed, any two values of it give the
  same result and the same world.
\<close>
theorem sample_with_mcmc_is_ignored:
  "sample sampler sample_shape x show_progress_bars with_mcmc method_arg parameters_arg w =
   sample sampler sample_shape x show_progress_bars with_mcmc' method_arg parameters_arg w"
  by (simp add: sample_def)

theorem sample_with_mcmc_is_ignored_witness:
  "sample (flat_batch_sampler 2 0) [3] (Some example_x) True (Some True) None None example_world =
   sample (flat_batch_sampler 2 0) [3] (Some example_x) True (Some False) None None example_world"
  using sample_with_mcmc_is_ignored [of "flat_batch_sampler 2 (0::int)" "[3]" "Some example_x" True
      "Some True" None None example_world "Some False"] .

subsection \<open>The default sample shape\<close>

text \<open>
  C10: with the empty \<open>sample_shape\<close>, a call that gets past its checks asks the
  sampler for exactly one draw, the product over the empty shape, and, the sampler
  returning the flat batch of that one draw of dimension \<open>d\<close>, returns a tensor of
  shape \<open>[d]\<close>: one parameter vector without a batch axis.
\<close>
theorem sample_default_shape_is_one_draw:
  assumes resolved: "x = Some x' \<or> x = None \<and> default_x (self w) = Some x'"
    and single: "ensure_single_x (atleast_2d_float32_tensor x') = Inr ()"
    and consistent:
      "ensure_x_consistent_with_default_x (self w) (atleast_2d_float32_tensor x') = Inr ()"
    and no_clash: "\<not> list_ex (\<lambda>k. k \<in> set named_keywords) (map fst
           (case parameters_arg of Some p \<Rightarrow> p | None \<Rightarrow> mcmc_parameters (self w)))"
    and contract: "\<forall>c g. \<exists>t g'. sampler c g = (Inr t, g') \<and> shape t = [call_num_samples c, d]"
  shows "(\<exists>t. fst (sample sampler [] x show_progress_bars sample_with_mcmc method_arg
            parameters_arg w) = Inr t \<and> shape t = [d]) \<and>
         map call_num_samples (mcmc_calls (snd (sample sampler [] x show_progress_bars
            sample_with_mcmc method_arg parameters_arg w))) =
         map call_num_samples (mcmc_calls w) @ [1]"
proof -
  have "\<exists>t. fst (sample sampler [] x show_progress_bars sample_with_mcmc method_arg
            parameters_arg w) = Inr t \<and> shape t = [] @ [d]"
    using resolved single consistent no_clash contract
    by (rule sample_returns_requested_shape) simp
  moreover have "map call_num_samples (mcmc_calls (snd (sample sampler [] x show_progress_bars
            sample_with_mcmc method_arg parameters_arg w))) =
         map call_num_samples (mcmc_calls w) @ [1]"
    using sample_reaches_sampler [OF x_else_default_x_resolved [OF resolved] single consistent
      no_clash refl, of sampler "[]" show_progress_bars sample_with_mcmc method_arg]
    by (simp add: numel_def)
  ultimately show ?thesis
    by simp
qed

theorem sample_default_shape_is_one_draw_witness:
  "fst (sample (flat_batch_sampler 2 0) [] (Some example_x) True None None None example_world) =
     Inr \<lparr>shape = [2], elems = [0, 0]\<rparr> \<and>
   map call_num_samples (mcmc_calls (snd (sample (flat_batch_sampler 2 0) [] (Some example_x)
     True None None None example_world))) = [1]"
proof -
  have resolved: "Some example_x = Some example_x \<or>
      Some example_x = None \<and> default_x (self example_world) = Some example_x"
    by simp
  have single: "ensure_single_x (atleast_2d_float32_tensor example_x) = Inr ()"
    by (simp add: ensure_single_x_def atleast_2d_float32_tensor_def example_x_def)
  have consistent: "ensure_x_consistent_with_default_x (self example_world)
      (atleast_2d_float32_tensor example_x) = Inr ()"
    by (simp add: ensure_x_consistent_with_default_x_def example_world_def example_posterior_def)
  have no_clash: "\<not> list_ex (\<lambda>k. k \<in> set named_keywords) (map fst
      (case None of Some p \<Rightarrow> p | None \<Rightarrow> mcmc_parameters (self example_world)))"
    by (simp add: named_keywords_def example_world_def example_posterior_def)
  have contract: "\<forall>c g. \<exists>t g'. flat_batch_sampler 2 (0::int) (c :: (int, int) mcmc_call) g = (Inr t, g') \<and>
      shape t = [call_num_samples c, 2]"
    by (simp add: flat_batch_sampler_def)
  have run: "fst (sample (flat_batch_sampler 2 0) [] (Some example_x) True None None None
      example_world) = Inr \<lparr>shape = [2], elems = [0, 0]\<rparr>"
    by (simp add: sample_def x_else_default_x_def atleast_2d_float32_tensor_def
      ensure_single_x_def ensure_x_consistent_with_default_x_def named_keywords_def
      flat_batch_sampler_def reshape_def numel_def Let_def example_defs eval_nat_numeral)
  show ?thesis
    using sample_default_shape_is_one_draw [OF resolved single consistent no_clash contract,
        of True None None] run
    by (simp add: example_defs)
qed

end
